theory Spec2Isabelle
  imports Complex_Main "HOL-Library.AList"
begin

section \<open>Python values, exceptions and strings\<close>

text \<open>
  The control values that the numeric input delivers are integers (microseconds); Python's
  integers are unbounded, so they are \<open>int\<close>. Exceptions are values: every
  \<^verbatim>\<open>except Exception\<close> of the source is a case distinction on a sum, \<open>Inl\<close> the exception.
\<close>

datatype exn =
    IndexError
  | KeyError string
  | AttributeError string
  | DriverError string
  | OverflowError

definition digit_char :: "nat \<Rightarrow> char" where
  "digit_char d = ''0123456789'' ! d"

fun str_nat :: "nat \<Rightarrow> string" where
  "str_nat n = (if n < 10 then [digit_char n] else str_nat (n div 10) @ [digit_char (n mod 10)])"

declare str_nat.simps [simp del]

definition str_int :: "int \<Rightarrow> string" where
  \<comment> \<open>\<^verbatim>\<open>str(v)\<close> for an integer (the interpreter's configurable limit on the number
      of digits is not modelled)\<close>
  "str_int v = (if v < 0 then CHR ''-'' # str_nat (nat (- v)) else str_nat (nat v))"

definition hex_char :: "nat \<Rightarrow> char" where
  "hex_char d = ''0123456789abcdef'' ! d"

definition repr_char :: "char \<Rightarrow> char \<Rightarrow> string" where
  \<comment> \<open>one character of \<^verbatim>\<open>repr(s)\<close> inside the quotes \<open>q\<close>. A \<open>char\<close> stands for the
      code point of the same number, so a string here is a Python string of code points
      below 256. Not printable, and escaped as \<^verbatim>\<open>\xhh\<close>, are the code points below
      \<^verbatim>\<open>0x20\<close>, \<^verbatim>\<open>0x7f\<close>, \<^verbatim>\<open>0x80\<close> to \<^verbatim>\<open>0xa0\<close> and \<^verbatim>\<open>0xad\<close>.\<close>
  "repr_char q c =
     (let n = (of_char c :: nat) in
      if c = q \<or> c = CHR 0x5C then [CHR 0x5C, c]
      else if c = CHR 0x09 then [CHR 0x5C, CHR ''t'']
      else if c = CHR 0x0A then [CHR 0x5C, CHR ''n'']
      else if c = CHR 0x0D then [CHR 0x5C, CHR ''r'']
      else if n < 0x20 \<or> n = 0x7F \<or> (0x80 \<le> n \<and> n \<le> 0xA0) \<or> n = 0xAD
        then [CHR 0x5C, CHR ''x'', hex_char (n div 16), hex_char (n mod 16)]
      else [c])"

definition repr_str :: "string \<Rightarrow> string" where
  \<comment> \<open>\<^verbatim>\<open>repr(s)\<close>: in single quotes, unless the string holds a single quote and no
      double quote\<close>
  "repr_str s =
     (let q = (if CHR 0x27 \<in> set s \<and> CHR 0x22 \<notin> set s then CHR 0x22 else CHR 0x27)
      in q # concat (map (repr_char q) s) @ [q])"

definition str_exn :: "exn \<Rightarrow> string" where
  \<comment> \<open>\<^verbatim>\<open>str(e)\<close>\<close>
  "str_exn e =
     (case e of
        IndexError \<Rightarrow> ''list index out of range''
      | KeyError k \<Rightarrow> repr_str k
      | AttributeError m \<Rightarrow> m
      | DriverError m \<Rightarrow> m
      | OverflowError \<Rightarrow> ''int too large to convert to float'')"

definition strip :: "char \<Rightarrow> string \<Rightarrow> string" where
  \<comment> \<open>\<^verbatim>\<open>s.strip(c)\<close> for a single character \<open>c\<close>\<close>
  "strip c s = rev (dropWhile (\<lambda>x. x = c) (rev (dropWhile (\<lambda>x. x = c) s)))"

definition none_has_no_attribute :: "string \<Rightarrow> string" where
  \<comment> \<open>the message of the AttributeError raised by an attribute access on \<^verbatim>\<open>None\<close>\<close>
  "none_has_no_attribute a =
     [CHR 0x27] @ ''NoneType'' @ [CHR 0x27] @ '' object has no attribute '' @ [CHR 0x27] @ a @ [CHR 0x27]"

section \<open>The vendor driver\<close>

text \<open>
  The seabreeze library is outside the repository. Its calls are the fields of a record;
  each takes the state of the outside world \<open>'w\<close> (which devices are attached, what
  the hardware holds) and returns its result, or the exception it raises, with the next
  world. \<open>'d\<close> is a device descriptor, \<open>'h\<close> an opened \<^verbatim>\<open>Spectrometer\<close> object
  and \<open>'a\<close> the type of the samples of a spectrum.
\<close>

record ('w, 'd, 'h, 'a) driver =
  list_devices :: "'w \<Rightarrow> (exn + 'd list) \<times> 'w"
  Spectrometer :: "'d \<Rightarrow> 'w \<Rightarrow> (exn + 'h) \<times> 'w"
  model_of :: "'h \<Rightarrow> 'w \<Rightarrow> (exn + string) \<times> 'w"
  integration_time_micros_limits :: "'h \<Rightarrow> 'w \<Rightarrow> (exn + int \<times> int) \<times> 'w"
  spectrum :: "'h \<Rightarrow> 'w \<Rightarrow> (exn + 'a list \<times> 'a list) \<times> 'w"
  integration_time_micros :: "'h \<Rightarrow> int \<Rightarrow> 'w \<Rightarrow> (exn + unit) \<times> 'w"

section \<open>DashOceanOpticsSpectrometer\<close>

text \<open>
  The fields of the base class. The two locks are left out of the sequential state: every
  method releases in a \<^verbatim>\<open>finally\<close> what it acquired, and no method acquires a lock that
  it already holds, so in a sequential run both locks are free between the statements
  modelled here.
\<close>

record ('h, 'a) spectrometer =
  spec :: "'h option"
  specmodel :: string
  spectralData :: "'a list \<times> 'a list"
  int_time_max :: int
  int_time_min :: int

definition base_init :: "('h, 'a) spectrometer" where
  "base_init =
     \<lparr>spec = None, specmodel = '''', spectralData = ([], []), int_time_max = 1, int_time_min = 0\<rparr>"

section \<open>PhysicalSpectrometer\<close>

datatype setter = Spec_integration_time_micros | Integration_time_demo

definition controlFunctions_physical :: "string \<rightharpoonup> setter" where
  "controlFunctions_physical = [''integration-time-input'' \<mapsto> Spec_integration_time_micros]"

definition assign_spec ::
  "('w, 'd, 'h, 'a) driver \<Rightarrow> ('h, 'a) spectrometer \<Rightarrow> 'w \<Rightarrow> ('h, 'a) spectrometer \<times> 'w" where
  \<comment> \<open>the five statements of the \<^verbatim>\<open>try\<close> block in their order; an exception leaves the
      block with the fields assigned so far. The \<^verbatim>\<open>finally\<close> block releases the lock
      and prints the model name and the two limits, which are integers.\<close>
  "assign_spec drv st w =
     (case list_devices drv w of
        (Inl e, w1) \<Rightarrow> (st, w1)
      | (Inr devices, w1) \<Rightarrow>
          (case devices of
             [] \<Rightarrow> (st, w1)
           | d # ds \<Rightarrow>
               (case Spectrometer drv d w1 of
                  (Inl e, w2) \<Rightarrow> (st, w2)
                | (Inr h, w2) \<Rightarrow>
                    (let st2 = st\<lparr>spec := Some h\<rparr> in
                     case model_of drv h w2 of
                       (Inl e, w3) \<Rightarrow> (st2, w3)
                     | (Inr m, w3) \<Rightarrow>
                         (let st3 = st2\<lparr>specmodel := m\<rparr> in
                          case integration_time_micros_limits drv h w3 of
                            (Inl e, w4) \<Rightarrow> (st3, w4)
                          | (Inr lim0, w4) \<Rightarrow>
                              (let st4 = st3\<lparr>int_time_min := fst lim0\<rparr> in
                               case integration_time_micros_limits drv h w4 of
                                 (Inl e, w5) \<Rightarrow> (st4, w5)
                               | (Inr lim1, w5) \<Rightarrow> (st4\<lparr>int_time_max := snd lim1\<rparr>, w5)))))))"

definition physical_init ::
  "('w, 'd, 'h, 'a) driver \<Rightarrow> 'w \<Rightarrow> ('h, 'a) spectrometer \<times> 'w" where
  "physical_init drv w = assign_spec drv base_init w"

definition get_spectrum ::
  "('w, 'd, 'h, 'a) driver \<Rightarrow> ('h, 'a) spectrometer \<Rightarrow> 'w \<Rightarrow>
     ('a list \<times> 'a list) \<times> ('h, 'a) spectrometer \<times> 'w" where
  "get_spectrum drv st w =
     (let (st1, w1) = (if spec st = None then assign_spec drv st w else (st, w)) in
      case spec st1 of
        None \<Rightarrow> (spectralData st1, st1, w1)
      | Some h \<Rightarrow>
          (case spectrum drv h w1 of
             (Inl e, w2) \<Rightarrow> (spectralData st1, st1, w2)
           | (Inr d, w2) \<Rightarrow> (d, st1\<lparr>spectralData := d\<rparr>, w2)))"

definition call_setter_physical ::
  "('w, 'd, 'h, 'a) driver \<Rightarrow> ('h, 'a) spectrometer \<Rightarrow> string \<Rightarrow> int \<Rightarrow> 'w \<Rightarrow> (exn + unit) \<times> 'w" where
  \<comment> \<open>\<^verbatim>\<open>eval(self._controlFunctions[ctrl_id])(commands[ctrl_id])\<close>\<close>
  "call_setter_physical drv st ctrl_id v w =
     (case controlFunctions_physical ctrl_id of
        None \<Rightarrow> (Inl (KeyError ctrl_id), w)
      | Some f \<Rightarrow>
          (case spec st of
             None \<Rightarrow>
               (Inl (AttributeError (none_has_no_attribute ''integration_time_micros'')), w)
           | Some h \<Rightarrow> integration_time_micros drv h v w))"

fun send_loop_physical ::
  "('w, 'd, 'h, 'a) driver \<Rightarrow> ('h, 'a) spectrometer \<Rightarrow> (string \<times> int) list \<Rightarrow>
     (string \<times> string) list \<Rightarrow> (string \<times> string) list \<Rightarrow> 'w \<Rightarrow>
     ((string \<times> string) list \<times> (string \<times> string) list) \<times> 'w" where
  "send_loop_physical drv st [] failed succeeded w = ((failed, succeeded), w)"
| "send_loop_physical drv st ((ctrl_id, v) # commands) failed succeeded w =
     (case call_setter_physical drv st ctrl_id v w of
        (Inr u, w') \<Rightarrow>
          send_loop_physical drv st commands failed (AList.update ctrl_id (str_int v) succeeded) w'
      | (Inl e, w') \<Rightarrow>
          send_loop_physical drv st commands
            (AList.update ctrl_id (strip CHR ''b'' (str_exn e)) failed) succeeded w')"

definition send_control_values ::
  "('w, 'd, 'h, 'a) driver \<Rightarrow> ('h, 'a) spectrometer \<Rightarrow> (string \<times> int) list \<Rightarrow> 'w \<Rightarrow>
     ((string \<times> string) list \<times> (string \<times> string) list) \<times> 'w" where
  \<comment> \<open>returns \<^verbatim>\<open>(failed, succeeded)\<close>, in this order, and the next world\<close>
  "send_control_values drv st commands w = send_loop_physical drv st commands [] [] w"

definition model ::
  "('w, 'd, 'h, 'a) driver \<Rightarrow> ('h, 'a) spectrometer \<Rightarrow> 'w \<Rightarrow> string \<times> ('h, 'a) spectrometer \<times> 'w" where
  "model drv st w = (let (st1, w1) = assign_spec drv st w in (specmodel st1, st1, w1))"

definition get_int_time_max ::
  "('w, 'd, 'h, 'a) driver \<Rightarrow> ('h, 'a) spectrometer \<Rightarrow> 'w \<Rightarrow> int \<times> ('h, 'a) spectrometer \<times> 'w" where
  "get_int_time_max drv st w = (let (st1, w1) = assign_spec drv st w in (int_time_max st1, st1, w1))"

definition get_int_time_min ::
  "('w, 'd, 'h, 'a) driver \<Rightarrow> ('h, 'a) spectrometer \<Rightarrow> 'w \<Rightarrow> int \<times> ('h, 'a) spectrometer \<times> 'w" where
  "get_int_time_min drv st w = (let (st1, w1) = assign_spec drv st w in (int_time_min st1, st1, w1))"

section \<open>DemoSpectrometer\<close>

text \<open>
  The simulated variant has no driver. Its samples are floating-point numbers in the source;
  they are real numbers here, so the rounding and the infinities of floating-point
  arithmetic are not modelled. What is modelled is the exception of the conversion: the
  scale is a Python integer, and its product with a float raises \<^verbatim>\<open>OverflowError\<close> when
  the integer rounds to a magnitude beyond the largest float, that is from
  \<open>2 ^ 1024 - 2 ^ 970\<close> on. \<^verbatim>\<open>random.random()\<close> is a parameter: \<open>rnd i\<close> is the
  \<open>i\<close>-th number drawn during the call, each in \<open>[0, 1)\<close>.
\<close>

record demo_spectrometer = "(unit, real) spectrometer" +
  sample_data_scale :: int
  sample_data_add :: int

definition controlFunctions_demo :: "string \<rightharpoonup> setter" where
  "controlFunctions_demo = [''integration-time-input'' \<mapsto> Integration_time_demo]"

definition assign_spec_demo :: "demo_spectrometer \<Rightarrow> demo_spectrometer" where
  "assign_spec_demo st = st\<lparr>specmodel := ''USB2000+''\<rparr>"

definition demo_init :: demo_spectrometer where
  "demo_init =
     (let st = assign_spec_demo
                 \<lparr>spec = None, specmodel = '''', spectralData = ([], []),
                  int_time_max = 1, int_time_min = 0,
                  sample_data_scale = 0, sample_data_add = 0\<rparr>
      in st\<lparr>sample_data_scale := int_time_min st, sample_data_add := 0\<rparr>)"

definition linspace :: "real \<Rightarrow> real \<Rightarrow> nat \<Rightarrow> real list" where
  \<comment> \<open>\<^verbatim>\<open>numpy.linspace(start, stop, num)\<close>: \<open>num\<close> evenly spaced samples, both ends included\<close>
  "linspace start stop num =
     map (\<lambda>i. start + real i * ((stop - start) / real (num - 1))) [0..<num]"

definition int_fits_float :: "int \<Rightarrow> bool" where
  \<comment> \<open>the conversion of a Python integer to a float does not overflow\<close>
  "int_fits_float n = (\<bar>n\<bar> < 2 ^ 1024 - 2 ^ 970)"

definition sample_spectrum :: "demo_spectrometer \<Rightarrow> real \<Rightarrow> real \<Rightarrow> exn + real" where
  \<comment> \<open>\<open>r\<close> is the value of \<^verbatim>\<open>random.random()\<close>; the integer scale is multiplied by a
      float, and the integer offset is added to a float\<close>
  "sample_spectrum st x r =
     (let g = exp 1 powr (- 1 * ((x - 500) / 5)\<^sup>2) + 0.01 * r in
      if \<not> int_fits_float (sample_data_scale st) then Inl OverflowError
      else if \<not> int_fits_float (sample_data_add st * 10) then Inl OverflowError
      else Inr (real_of_int (sample_data_scale st) * g + real_of_int (sample_data_add st * 10)))"

fun comprehension :: "(exn + 'a) list \<Rightarrow> exn + 'a list" where
  \<comment> \<open>a list comprehension over results: the first exception leaves it\<close>
  "comprehension [] = Inr []"
| "comprehension (r # rs) =
     (case r of
        Inl e \<Rightarrow> Inl e
      | Inr y \<Rightarrow> (case comprehension rs of Inl e \<Rightarrow> Inl e | Inr ys \<Rightarrow> Inr (y # ys)))"

definition get_spectrum_demo ::
  "(nat \<Rightarrow> real) \<Rightarrow> demo_spectrometer \<Rightarrow>
     (exn + real list \<times> real list) \<times> demo_spectrometer" where
  \<comment> \<open>the wavelengths are stored before the intensities are computed; an exception of
      \<^verbatim>\<open>sample_spectrum\<close> is raised to the caller and leaves the old intensities\<close>
  "get_spectrum_demo rnd st =
     (let wl = linspace 400 900 5000;
          st1 = st\<lparr>spectralData := (wl, snd (spectralData st))\<rparr>
      in case comprehension (map (\<lambda>i. sample_spectrum st1 (wl ! i) (rnd i)) [0..<length wl]) of
           Inl e \<Rightarrow> (Inl e, st1)
         | Inr ys \<Rightarrow> (Inr (wl, ys), st1\<lparr>spectralData := (wl, ys)\<rparr>))"

definition integration_time_demo :: "demo_spectrometer \<Rightarrow> int \<Rightarrow> demo_spectrometer" where
  "integration_time_demo st x = st\<lparr>sample_data_scale := x\<rparr>"

definition call_setter_demo ::
  "demo_spectrometer \<Rightarrow> string \<Rightarrow> int \<Rightarrow> exn + demo_spectrometer" where
  \<comment> \<open>\<^verbatim>\<open>eval(self.controlFunctions[ctrl_id])(commands[ctrl_id])\<close>\<close>
  "call_setter_demo st ctrl_id v =
     (case controlFunctions_demo ctrl_id of
        None \<Rightarrow> Inl (KeyError ctrl_id)
      | Some f \<Rightarrow> Inr (integration_time_demo st v))"

fun send_loop_demo ::
  "demo_spectrometer \<Rightarrow> (string \<times> int) list \<Rightarrow>
     (string \<times> string) list \<Rightarrow> (string \<times> string) list \<Rightarrow>
     ((string \<times> string) list \<times> (string \<times> string) list) \<times> demo_spectrometer" where
  "send_loop_demo st [] failed succeeded = ((failed, succeeded), st)"
| "send_loop_demo st ((ctrl_id, v) # commands) failed succeeded =
     (case call_setter_demo st ctrl_id v of
        Inr st' \<Rightarrow>
          send_loop_demo st' commands failed (AList.update ctrl_id (str_int v) succeeded)
      | Inl e \<Rightarrow>
          send_loop_demo st commands (AList.update ctrl_id (str_exn e) failed) succeeded)"

definition send_control_values_demo ::
  "demo_spectrometer \<Rightarrow> (string \<times> int) list \<Rightarrow>
     ((string \<times> string) list \<times> (string \<times> string) list) \<times> demo_spectrometer" where
  \<comment> \<open>returns \<^verbatim>\<open>(failed, succeeded)\<close>, in this order, and the next state\<close>
  "send_control_values_demo st commands = send_loop_demo st commands [] []"

definition model_demo :: "demo_spectrometer \<Rightarrow> string" where
  "model_demo st = specmodel st"

section \<open>The operator's submission\<close>

text \<open>
  The application binds \<^verbatim>\<open>spec\<close> to a \<^verbatim>\<open>PhysicalSpectrometer\<close> and has one control,
  whose component id is \<^verbatim>\<open>integration-time-input\<close>; \<open>v\<close> is the value of that
  component and \<open>pwr\<close> the state of the power button. With the power off the callback
  returns a fixed message (\<open>None\<close> here). Otherwise it renders the two dictionaries that
  \<^verbatim>\<open>send_control_values\<close> returns; the rendering into HTML is not modelled.
\<close>

definition update_spec_params ::
  "('w, 'd, 'h, 'a) driver \<Rightarrow> ('h, 'a) spectrometer \<Rightarrow> 'w \<Rightarrow> int \<Rightarrow> bool \<Rightarrow>
     ((string \<times> string) list \<times> (string \<times> string) list) option \<times> 'w" where
  "update_spec_params drv st w v pwr =
     (if \<not> pwr then (None, w)
      else (let commands = [(''integration-time-input'', v)];
                (res, w') = send_control_values drv st commands w
            in (Some res, w')))"

section \<open>Sequences of calls\<close>

text \<open>
  A reachable state of a spectrometer object is the state after a sequence of method calls
  on the freshly constructed object. Between two calls the outside world may change, so
  each call of the physical variant carries the world it runs in.
\<close>

datatype 'w call =
    Assign_spec 'w
  | Get_spectrum 'w
  | Send_control_values "(string \<times> int) list" 'w
  | Model 'w
  | Int_time_max 'w
  | Int_time_min 'w

fun do_call ::
  "('w, 'd, 'h, 'a) driver \<Rightarrow> ('h, 'a) spectrometer \<Rightarrow> 'w call \<Rightarrow> ('h, 'a) spectrometer" where
  "do_call drv st (Assign_spec w) = fst (assign_spec drv st w)"
| "do_call drv st (Get_spectrum w) = fst (snd (get_spectrum drv st w))"
| "do_call drv st (Send_control_values commands w) = st"
| "do_call drv st (Model w) = fst (snd (model drv st w))"
| "do_call drv st (Int_time_max w) = fst (snd (get_int_time_max drv st w))"
| "do_call drv st (Int_time_min w) = fst (snd (get_int_time_min drv st w))"

definition run ::
  "('w, 'd, 'h, 'a) driver \<Rightarrow> 'w \<Rightarrow> 'w call list \<Rightarrow> ('h, 'a) spectrometer" where
  \<comment> \<open>the object constructed in world \<open>w0\<close>, after the calls\<close>
  "run drv w0 calls = foldl (do_call drv) (fst (physical_init drv w0)) calls"

datatype demo_call =
    Demo_assign_spec
  | Demo_get_spectrum "nat \<Rightarrow> real"
  | Demo_send_control_values "(string \<times> int) list"

fun do_call_demo :: "demo_spectrometer \<Rightarrow> demo_call \<Rightarrow> demo_spectrometer" where
  "do_call_demo st Demo_assign_spec = assign_spec_demo st"
| "do_call_demo st (Demo_get_spectrum rnd) = snd (get_spectrum_demo rnd st)"
| "do_call_demo st (Demo_send_control_values commands) = snd (send_control_values_demo st commands)"

definition run_demo :: "demo_call list \<Rightarrow> demo_spectrometer" where
  "run_demo calls = foldl do_call_demo demo_init calls"

section \<open>A bench driver\<close>

text \<open>
  A small driver for the concrete runs below. Its world says whether a device is attached:
  \<open>Absent\<close>, no device; \<open>Flaky\<close>, a device that opens and then fails every query;
  \<open>Attached t\<close>, a working device whose integration time is \<open>t\<close>.
\<close>

datatype bench = Absent | Flaky | Attached int

definition bench_driver :: "(bench, unit, unit, int) driver" where
  "bench_driver =
     \<lparr>list_devices = (\<lambda>w. (Inr (if w = Absent then [] else [()]), w)),
      Spectrometer = (\<lambda>d w. (if w = Absent then Inl (DriverError ''No device'') else Inr (), w)),
      model_of = (\<lambda>h w. (case w of Attached t \<Rightarrow> Inr ''HR4000'' | _ \<Rightarrow> Inl (DriverError ''I/O error''), w)),
      integration_time_micros_limits =
        (\<lambda>h w. (case w of Attached t \<Rightarrow> Inr (10, 65535000) | _ \<Rightarrow> Inl (DriverError ''I/O error''), w)),
      spectrum =
        (\<lambda>h w. (case w of Attached t \<Rightarrow> Inr ([400, 500, 900], [0, t, 0])
                 | _ \<Rightarrow> Inl (DriverError ''I/O error''), w)),
      integration_time_micros =
        (\<lambda>h v w. (case w of
                     Attached t \<Rightarrow>
                       if 10 \<le> v \<and> v \<le> 65535000 then (Inr (), Attached v)
                       else (Inl (DriverError ''Integration time out of range''), w)
                   | _ \<Rightarrow> (Inl (DriverError ''I/O error''), w)))\<rparr>"

section \<open>What a call of the driver did\<close>

definition opened_handle :: "('w, 'd, 'h, 'a) driver \<Rightarrow> 'w \<Rightarrow> 'h option" where
  \<comment> \<open>the \<^verbatim>\<open>Spectrometer\<close> object that \<^verbatim>\<open>assign_spec\<close> opens in world \<open>w\<close>: none when
      the discovery raises, finds no device, or the opening raises\<close>
  "opened_handle drv w =
     (case list_devices drv w of
        (Inl e, w1) \<Rightarrow> None
      | (Inr devices, w1) \<Rightarrow>
          (case devices of
             [] \<Rightarrow> None
           | d # ds \<Rightarrow> (case Spectrometer drv d w1 of (Inl e, w2) \<Rightarrow> None | (Inr h, w2) \<Rightarrow> Some h)))"

definition read_fails ::
  "('w, 'd, 'h, 'a) driver \<Rightarrow> ('h, 'a) spectrometer \<Rightarrow> 'w \<Rightarrow> bool" where
  \<comment> \<open>the read of \<^verbatim>\<open>get_spectrum\<close> raises: after the implicit \<^verbatim>\<open>assign_spec\<close> of an
      unbound object there is still no handle, or the driver's \<^verbatim>\<open>spectrum\<close> raises\<close>
  "read_fails drv st w =
     (let (st1, w1) = (if spec st = None then assign_spec drv st w else (st, w)) in
      case spec st1 of
        None \<Rightarrow> True
      | Some h \<Rightarrow> (case spectrum drv h w1 of (Inl e, w2) \<Rightarrow> True | (Inr d, w2) \<Rightarrow> False))"

definition rectangular :: "('w, 'd, 'h, 'a) driver \<Rightarrow> bool" where
  \<comment> \<open>the driver returns a spectrum as an array of shape \<open>(2, N)\<close>: its two rows have the
      same length\<close>
  "rectangular drv =
     (\<forall>h w d w'. spectrum drv h w = (Inr d, w') \<longrightarrow> length (fst d) = length (snd d))"

fun no_read_succeeded ::
  "('w, 'd, 'h, 'a) driver \<Rightarrow> ('h, 'a) spectrometer \<Rightarrow> 'w call list \<Rightarrow> bool" where
  \<comment> \<open>in the calls made from state \<open>st\<close> on, the read of every \<^verbatim>\<open>get_spectrum\<close> fails\<close>
  "no_read_succeeded drv st [] = True"
| "no_read_succeeded drv st (c # cs) =
     ((case c of Get_spectrum w \<Rightarrow> read_fails drv st w | _ \<Rightarrow> True)
      \<and> no_read_succeeded drv (do_call drv st c) cs)"

definition reports_model :: "('w, 'd, 'h, 'a) driver \<Rightarrow> string \<Rightarrow> bool" where
  \<comment> \<open>whenever the driver reports a model name, it is \<open>m\<close>\<close>
  "reports_model drv m = (\<forall>h w1 m' w2. model_of drv h w1 = (Inr m', w2) \<longrightarrow> m' = m)"

section \<open>Properties of the command loop\<close>

lemma send_loop_physical_keys:
  "send_loop_physical drv st commands failed succeeded w = ((failed', succeeded'), w') \<Longrightarrow>
   fst ` set failed' \<union> fst ` set succeeded' =
     fst ` set failed \<union> fst ` set succeeded \<union> fst ` set commands"
proof (induction commands arbitrary: failed succeeded w)
  case Nil
  then show ?case by simp
next
  case (Cons c commands)
  obtain k v where c: "c = (k, v)" by (cases c)
  obtain r w1 where r: "call_setter_physical drv st k v w = (r, w1)" by (cases "call_setter_physical drv st k v w")
  show ?case
  proof (cases r)
    case (Inl e)
    with Cons.prems c r have "send_loop_physical drv st commands (AList.update k (strip CHR ''b'' (str_exn e)) failed) succeeded w1 = ((failed', succeeded'), w')"
      by simp
    from Cons.IH [OF this] show ?thesis by (auto simp: c dom_update)
  next
    case (Inr u)
    with Cons.prems c r have "send_loop_physical drv st commands failed (AList.update k (str_int v) succeeded) w1 = ((failed', succeeded'), w')"
      by simp
    from Cons.IH [OF this] show ?thesis by (auto simp: c dom_update)
  qed
qed

lemma send_loop_physical_disjoint:
  "send_loop_physical drv st commands failed succeeded w = ((failed', succeeded'), w') \<Longrightarrow>
   distinct (map fst commands) \<Longrightarrow>
   fst ` set commands \<inter> (fst ` set failed \<union> fst ` set succeeded) = {} \<Longrightarrow>
   fst ` set failed \<inter> fst ` set succeeded = {} \<Longrightarrow>
   fst ` set failed' \<inter> fst ` set succeeded' = {}"
proof (induction commands arbitrary: failed succeeded w)
  case Nil
  then show ?case by simp
next
  case (Cons c commands)
  obtain k v where c: "c = (k, v)" by (cases c)
  obtain r w1 where r: "call_setter_physical drv st k v w = (r, w1)" by (cases "call_setter_physical drv st k v w")
  from Cons.prems c have d: "distinct (map fst commands)" and kn: "k \<notin> fst ` set commands"
    and kf: "k \<notin> fst ` set failed" and ks: "k \<notin> fst ` set succeeded"
    and cf: "fst ` set commands \<inter> (fst ` set failed \<union> fst ` set succeeded) = {}"
    by auto
  show ?case
  proof (cases r)
    case (Inl e)
    with Cons.prems c r have run: "send_loop_physical drv st commands (AList.update k (strip CHR ''b'' (str_exn e)) failed) succeeded w1 = ((failed', succeeded'), w')"
      by simp
    show ?thesis
      by (rule Cons.IH [OF run d]) (use kn kf ks cf Cons.prems(4) in \<open>auto simp: dom_update\<close>)
  next
    case (Inr u)
    with Cons.prems c r have run: "send_loop_physical drv st commands failed (AList.update k (str_int v) succeeded) w1 = ((failed', succeeded'), w')"
      by simp
    show ?thesis
      by (rule Cons.IH [OF run d]) (use kn kf ks cf Cons.prems(4) in \<open>auto simp: dom_update\<close>)
  qed
qed


lemma repr_str_line_feed:
  "repr_str [CHR ''a'', CHR 0x0A, CHR ''b''] = [CHR 0x27, CHR ''a'', CHR 0x5C, CHR ''n'', CHR ''b'', CHR 0x27]"
  by code_simp





lemma send_loop_demo_keys:
  "send_loop_demo st commands failed succeeded = ((failed', succeeded'), st') \<Longrightarrow>
   fst ` set failed' \<union> fst ` set succeeded' =
     fst ` set failed \<union> fst ` set succeeded \<union> fst ` set commands"
proof (induction commands arbitrary: st failed succeeded)
  case Nil
  then show ?case by simp
next
  case (Cons c commands)
  obtain k v where c: "c = (k, v)" by (cases c)
  show ?case
  proof (cases "call_setter_demo st k v")
    case (Inl e)
    with Cons.prems c have "send_loop_demo st commands (AList.update k (str_exn e) failed) succeeded = ((failed', succeeded'), st')"
      by simp
    from Cons.IH [OF this] show ?thesis by (auto simp: c dom_update)
  next
    case (Inr st1)
    with Cons.prems c have "send_loop_demo st1 commands failed (AList.update k (str_int v) succeeded) = ((failed', succeeded'), st')"
      by simp
    from Cons.IH [OF this] show ?thesis by (auto simp: c dom_update)
  qed
qed

lemma send_loop_demo_disjoint:
  "send_loop_demo st commands failed succeeded = ((failed', succeeded'), st') \<Longrightarrow>
   distinct (map fst commands) \<Longrightarrow>
   fst ` set commands \<inter> (fst ` set failed \<union> fst ` set succeeded) = {} \<Longrightarrow>
   fst ` set failed \<inter> fst ` set succeeded = {} \<Longrightarrow>
   fst ` set failed' \<inter> fst ` set succeeded' = {}"
proof (induction commands arbitrary: st failed succeeded)
  case Nil
  then show ?case by simp
next
  case (Cons c commands)
  obtain k v where c: "c = (k, v)" by (cases c)
  from Cons.prems c have d: "distinct (map fst commands)" and kn: "k \<notin> fst ` set commands"
    and kf: "k \<notin> fst ` set failed" and ks: "k \<notin> fst ` set succeeded"
    and cf: "fst ` set commands \<inter> (fst ` set failed \<union> fst ` set succeeded) = {}"
    by auto
  show ?case
  proof (cases "call_setter_demo st k v")
    case (Inl e)
    with Cons.prems c have run: "send_loop_demo st commands (AList.update k (str_exn e) failed) succeeded = ((failed', succeeded'), st')"
      by simp
    show ?thesis
      by (rule Cons.IH [OF run d]) (use kn kf ks cf Cons.prems(4) in \<open>auto simp: dom_update\<close>)
  next
    case (Inr st1)
    with Cons.prems c have run: "send_loop_demo st1 commands failed (AList.update k (str_int v) succeeded) = ((failed', succeeded'), st')"
      by simp
    show ?thesis
      by (rule Cons.IH [OF run d]) (use kn kf ks cf Cons.prems(4) in \<open>auto simp: dom_update\<close>)
  qed
qed



lemma send_loop_physical_append:
  "send_loop_physical drv st (xs @ ys) f s w =
     (case send_loop_physical drv st xs f s w of
        ((f1, s1), w1) \<Rightarrow> send_loop_physical drv st ys f1 s1 w1)"
proof (induction xs arbitrary: f s w)
  case Nil
  then show ?case by simp
next
  case (Cons c xs)
  obtain k v where c: "c = (k, v)" by (cases c)
  show ?case
    by (simp add: c Cons.IH split: prod.splits sum.splits)
qed

lemma send_loop_physical_later:
  "send_loop_physical drv st cs f s w = ((f', s'), w') \<Longrightarrow> k \<notin> fst ` set cs \<Longrightarrow>
   map_of f' k = map_of f k \<and> map_of s' k = map_of s k"
proof (induction cs arbitrary: f s w)
  case Nil
  then show ?case by simp
next
  case (Cons c cs)
  obtain k' v where c: "c = (k', v)" by (cases c)
  obtain r w1 where r: "call_setter_physical drv st k' v w = (r, w1)"
    by (cases "call_setter_physical drv st k' v w")
  from Cons.prems c have ne: "k' \<noteq> k" and k: "k \<notin> fst ` set cs" by auto
  show ?case
  proof (cases r)
    case (Inl e)
    with Cons.prems c r have run: "send_loop_physical drv st cs (AList.update k' (strip CHR ''b'' (str_exn e)) f) s w1 = ((f', s'), w')"
      by simp
    from Cons.IH [OF run k] ne show ?thesis by (simp add: update_conv')
  next
    case (Inr u)
    with Cons.prems c r have run: "send_loop_physical drv st cs f (AList.update k' (str_int v) s) w1 = ((f', s'), w')"
      by simp
    from Cons.IH [OF run k] ne show ?thesis by (simp add: update_conv')
  qed
qed

lemma send_control_values_entry:
  assumes "distinct (map fst (xs @ (k, v) # ys))"
    and "send_control_values drv st (xs @ (k, v) # ys) w = ((failed, succeeded), w')"
  shows "case call_setter_physical drv st k v (snd (send_control_values drv st xs w)) of
           (Inl e, w1) \<Rightarrow> map_of failed k = Some (strip CHR ''b'' (str_exn e))
         | (Inr u, w1) \<Rightarrow> map_of succeeded k = Some (str_int v)"
proof -
  obtain f1 s1 w1 where a: "send_loop_physical drv st xs [] [] w = ((f1, s1), w1)"
    by (metis surj_pair)
  from assms(1) have k: "k \<notin> fst ` set ys" by auto
  obtain r w2 where r: "call_setter_physical drv st k v w1 = (r, w2)"
    by (cases "call_setter_physical drv st k v w1")
  have w1: "snd (send_control_values drv st xs w) = w1"
    by (simp add: send_control_values_def a)
  show ?thesis
  proof (cases r)
    case (Inl e)
    with assms(2) a r have run: "send_loop_physical drv st ys (AList.update k (strip CHR ''b'' (str_exn e)) f1) s1 w2 = ((failed, succeeded), w')"
      by (simp add: send_control_values_def send_loop_physical_append)
    from send_loop_physical_later [OF run k] show ?thesis
      by (simp add: w1 r Inl update_conv')
  next
    case (Inr u)
    with assms(2) a r have run: "send_loop_physical drv st ys f1 (AList.update k (str_int v) s1) w2 = ((failed, succeeded), w')"
      by (simp add: send_control_values_def send_loop_physical_append)
    from send_loop_physical_later [OF run k] show ?thesis
      by (simp add: w1 r Inr update_conv')
  qed
qed

lemma send_loop_demo_append:
  "send_loop_demo st (xs @ ys) f s =
     (case send_loop_demo st xs f s of ((f1, s1), st1) \<Rightarrow> send_loop_demo st1 ys f1 s1)"
proof (induction xs arbitrary: st f s)
  case Nil
  then show ?case by simp
next
  case (Cons c xs)
  obtain k v where c: "c = (k, v)" by (cases c)
  show ?case
    by (simp add: c Cons.IH split: prod.splits sum.splits)
qed

lemma send_loop_demo_later:
  "send_loop_demo st cs f s = ((f', s'), st') \<Longrightarrow> k \<notin> fst ` set cs \<Longrightarrow>
   map_of f' k = map_of f k \<and> map_of s' k = map_of s k"
proof (induction cs arbitrary: st f s)
  case Nil
  then show ?case by simp
next
  case (Cons c cs)
  obtain k' v where c: "c = (k', v)" by (cases c)
  from Cons.prems c have ne: "k' \<noteq> k" and k: "k \<notin> fst ` set cs" by auto
  show ?case
  proof (cases "call_setter_demo st k' v")
    case (Inl e)
    with Cons.prems c have run: "send_loop_demo st cs (AList.update k' (str_exn e) f) s = ((f', s'), st')"
      by simp
    from Cons.IH [OF run k] ne show ?thesis by (simp add: update_conv')
  next
    case (Inr st1)
    with Cons.prems c have run: "send_loop_demo st1 cs f (AList.update k' (str_int v) s) = ((f', s'), st')"
      by simp
    from Cons.IH [OF run k] ne show ?thesis by (simp add: update_conv')
  qed
qed

lemma send_control_values_demo_entry:
  assumes "distinct (map fst (xs @ (k, v) # ys))"
    and "send_control_values_demo dst (xs @ (k, v) # ys) = ((failed, succeeded), dst')"
  shows "case call_setter_demo (snd (send_control_values_demo dst xs)) k v of
           Inl e \<Rightarrow> map_of failed k = Some (str_exn e)
         | Inr dst1 \<Rightarrow> map_of succeeded k = Some (str_int v)"
proof -
  obtain f1 s1 st1 where a: "send_loop_demo dst xs [] [] = ((f1, s1), st1)"
    by (metis surj_pair)
  from assms(1) have k: "k \<notin> fst ` set ys" by auto
  have st1: "snd (send_control_values_demo dst xs) = st1"
    by (simp add: send_control_values_demo_def a)
  show ?thesis
  proof (cases "call_setter_demo st1 k v")
    case (Inl e)
    with assms(2) a have run: "send_loop_demo st1 ys (AList.update k (str_exn e) f1) s1 = ((failed, succeeded), dst')"
      by (simp add: send_control_values_demo_def send_loop_demo_append)
    from send_loop_demo_later [OF run k] show ?thesis
      by (simp add: st1 Inl update_conv')
  next
    case (Inr st2)
    with assms(2) a have run: "send_loop_demo st2 ys f1 (AList.update k (str_int v) s1) = ((failed, succeeded), dst')"
      by (simp add: send_control_values_demo_def send_loop_demo_append)
    from send_loop_demo_later [OF run k] show ?thesis
      by (simp add: st1 Inr update_conv')
  qed
qed

lemma bench_batch:
  "send_control_values bench_driver (run bench_driver (Attached 10) [])
      [(''gain'', 3), (''integration-time-input'', 1000)] (Attached 10)
    = (([(''gain'', repr_str ''gain'')], [(''integration-time-input'', ''1000'')]), Attached 1000)"
  "send_control_values_demo demo_init [(''gain'', 3), (''integration-time-input'', 1000)]
    = (([(''gain'', repr_str ''gain'')], [(''integration-time-input'', ''1000'')]),
       demo_init\<lparr>sample_data_scale := 1000\<rparr>)"
  by code_simp+


lemma send_one_physical:
  "spec st = Some h \<Longrightarrow>
   send_control_values drv st [(''integration-time-input'', v)] w =
     (case integration_time_micros drv h v w of
        (Inl e, w') \<Rightarrow> (([(''integration-time-input'', strip CHR ''b'' (str_exn e))], []), w')
      | (Inr u, w') \<Rightarrow> (([], [(''integration-time-input'', str_int v)]), w'))"
  by (simp add: send_control_values_def call_setter_physical_def controlFunctions_physical_def
      split: prod.splits sum.splits)

lemma send_one_demo:
  "send_control_values_demo dst [(''integration-time-input'', v)] =
     (([], [(''integration-time-input'', str_int v)]), dst\<lparr>sample_data_scale := v\<rparr>)"
  by (simp add: send_control_values_demo_def call_setter_demo_def controlFunctions_demo_def
      integration_time_demo_def)

lemma bench_attached:
  "spec (run bench_driver (Attached 10) []) = Some ()"
  "int_time_min (run bench_driver (Attached 10) []) = 10"
  "int_time_max (run bench_driver (Attached 10) []) = 65535000"
  by code_simp+

section \<open>The command batch\<close>

text \<open>
  C1. A batch is a dictionary, so its control ids are distinct. Whatever the driver does,
  on either variant, the ids of the two dictionaries returned by \<^verbatim>\<open>send_control_values\<close>
  are together exactly the ids of the batch, and no id is in both. Each entry is recorded
  by the outcome of its own setter, called in the state that the entries before it have
  left: under \<open>failed\<close> with the text of its exception, or under \<open>succeeded\<close> with
  its value as a string, also after another entry has failed.
\<close>

theorem send_control_values_partition:
  assumes "distinct (map fst commands)"
  shows "(case send_control_values drv st commands w of
            ((failed, succeeded), w') \<Rightarrow>
              fst ` set failed \<union> fst ` set succeeded = fst ` set commands \<and>
              fst ` set failed \<inter> fst ` set succeeded = {} \<and>
              (\<forall>xs k v ys. commands = xs @ (k, v) # ys \<longrightarrow>
                 (case call_setter_physical drv st k v (snd (send_control_values drv st xs w)) of
                    (Inl e, w1) \<Rightarrow> map_of failed k = Some (strip CHR ''b'' (str_exn e))
                  | (Inr u, w1) \<Rightarrow> map_of succeeded k = Some (str_int v))))
       \<and> (case send_control_values_demo dst commands of
            ((failed, succeeded), dst') \<Rightarrow>
              fst ` set failed \<union> fst ` set succeeded = fst ` set commands \<and>
              fst ` set failed \<inter> fst ` set succeeded = {} \<and>
              (\<forall>xs k v ys. commands = xs @ (k, v) # ys \<longrightarrow>
                 (case call_setter_demo (snd (send_control_values_demo dst xs)) k v of
                    Inl e \<Rightarrow> map_of failed k = Some (str_exn e)
                  | Inr dst1 \<Rightarrow> map_of succeeded k = Some (str_int v))))"
proof -
  obtain f s w' where p: "send_control_values drv st commands w = ((f, s), w')"
    by (metis surj_pair)
  obtain g t dst' where d: "send_control_values_demo dst commands = ((g, t), dst')"
    by (metis surj_pair)
  from p have p': "send_loop_physical drv st commands [] [] w = ((f, s), w')"
    by (simp add: send_control_values_def)
  from d have d': "send_loop_demo dst commands [] [] = ((g, t), dst')"
    by (simp add: send_control_values_demo_def)
  have "fst ` set f \<union> fst ` set s = fst ` set commands"
    using send_loop_physical_keys [OF p'] by simp
  moreover have "fst ` set f \<inter> fst ` set s = {}"
    using send_loop_physical_disjoint [OF p' assms] by simp
  moreover have "\<forall>xs k v ys. commands = xs @ (k, v) # ys \<longrightarrow>
      (case call_setter_physical drv st k v (snd (send_control_values drv st xs w)) of
         (Inl e, w1) \<Rightarrow> map_of f k = Some (strip CHR ''b'' (str_exn e))
       | (Inr u, w1) \<Rightarrow> map_of s k = Some (str_int v))"
  proof (intro allI impI)
    fix xs k v ys
    assume c: "commands = xs @ (k, v) # ys"
    show "case call_setter_physical drv st k v (snd (send_control_values drv st xs w)) of
         (Inl e, w1) \<Rightarrow> map_of f k = Some (strip CHR ''b'' (str_exn e))
       | (Inr u, w1) \<Rightarrow> map_of s k = Some (str_int v)"
      by (rule send_control_values_entry [OF assms [unfolded c] p [unfolded c]])
  qed
  moreover have "fst ` set g \<union> fst ` set t = fst ` set commands"
    using send_loop_demo_keys [OF d'] by simp
  moreover have "fst ` set g \<inter> fst ` set t = {}"
    using send_loop_demo_disjoint [OF d' assms] by simp
  moreover have "\<forall>xs k v ys. commands = xs @ (k, v) # ys \<longrightarrow>
      (case call_setter_demo (snd (send_control_values_demo dst xs)) k v of
         Inl e \<Rightarrow> map_of g k = Some (str_exn e)
       | Inr dst1 \<Rightarrow> map_of t k = Some (str_int v))"
  proof (intro allI impI)
    fix xs k v ys
    assume c: "commands = xs @ (k, v) # ys"
    show "case call_setter_demo (snd (send_control_values_demo dst xs)) k v of
         Inl e \<Rightarrow> map_of g k = Some (str_exn e)
       | Inr dst1 \<Rightarrow> map_of t k = Some (str_int v)"
      by (rule send_control_values_demo_entry [OF assms [unfolded c] d [unfolded c]])
  qed
  ultimately show ?thesis by (simp add: p d)
qed

theorem send_control_values_partition_witness:
  "distinct (map fst [(''gain'', 3 :: int), (''integration-time-input'', 1000)])
   \<and> fst ` set (fst (fst (send_control_values bench_driver (run bench_driver (Attached 10) [])
          [(''gain'', 3), (''integration-time-input'', 1000)] (Attached 10))))
     \<union> fst ` set (snd (fst (send_control_values bench_driver (run bench_driver (Attached 10) [])
          [(''gain'', 3), (''integration-time-input'', 1000)] (Attached 10))))
     = fst ` set [(''gain'', 3 :: int), (''integration-time-input'', 1000)]
   \<and> fst ` set (fst (fst (send_control_values_demo demo_init
          [(''gain'', 3), (''integration-time-input'', 1000)])))
     \<inter> fst ` set (snd (fst (send_control_values_demo demo_init
          [(''gain'', 3), (''integration-time-input'', 1000)]))) = {}"
proof -
  have h: "distinct (map fst [(''gain'', 3 :: int), (''integration-time-input'', 1000)])"
    by simp
  show ?thesis
    using h send_control_values_partition
      [OF h, of bench_driver "run bench_driver (Attached 10) []" "Attached 10" demo_init]
    by (simp add: bench_batch insert_commute)
qed



section \<open>Binding and reading\<close>

lemma assign_spec_spectralData [simp]:
  "spectralData (fst (assign_spec drv st w)) = spectralData st"
  by (simp add: assign_spec_def Let_def split: prod.splits sum.splits list.splits)

lemma assign_spec_unopened:
  "opened_handle drv w = None \<Longrightarrow> fst (assign_spec drv st w) = st"
  by (auto simp add: assign_spec_def opened_handle_def Let_def split: prod.splits sum.splits list.splits)

lemma assign_spec_opened:
  "opened_handle drv w = Some h \<Longrightarrow> spec (fst (assign_spec drv st w)) = Some h"
  by (auto simp add: assign_spec_def opened_handle_def Let_def split: prod.splits sum.splits list.splits)

lemma assign_spec_specmodel:
  "specmodel (fst (assign_spec drv st w)) = specmodel st \<or>
   (\<exists>h w1 w2. model_of drv h w1 = (Inr (specmodel (fst (assign_spec drv st w))), w2))"
  by (auto simp add: assign_spec_def Let_def split: prod.splits sum.splits list.splits)

lemma bench_absent: "opened_handle bench_driver Absent = None"
  by (simp add: opened_handle_def bench_driver_def)

lemma bench_flaky: "opened_handle bench_driver Flaky = Some ()"
  by (simp add: opened_handle_def bench_driver_def)

lemma get_spectrum_fails:
  "read_fails drv st w \<Longrightarrow>
     fst (get_spectrum drv st w) = spectralData st \<and>
     spectralData (fst (snd (get_spectrum drv st w))) = spectralData st"
  by (cases "assign_spec drv st w")
     (auto simp add: get_spectrum_def read_fails_def Let_def
        split: prod.splits sum.splits option.splits if_splits
        dest: arg_cong [where f = "\<lambda>p. spectralData (fst p)"])

lemma get_spectrum_cache:
  "fst (get_spectrum drv st w) = spectralData (fst (snd (get_spectrum drv st w)))"
  by (auto simp add: get_spectrum_def Let_def
        split: prod.splits sum.splits option.splits if_splits)

lemma get_spectrum_reads:
  "read_fails drv st w \<or>
   (\<exists>h w1 w2. spectrum drv h w1 = (Inr (fst (get_spectrum drv st w)), w2))"
  by (auto simp add: get_spectrum_def read_fails_def Let_def
        split: prod.splits sum.splits option.splits if_splits)

lemma do_call_spectralData:
  "(\<forall>w. c \<noteq> Get_spectrum w) \<Longrightarrow> spectralData (do_call drv st c) = spectralData st"
  by (cases c) (simp_all add: model_def get_int_time_max_def get_int_time_min_def split: prod.splits,
     (metis assign_spec_spectralData fst_conv)+)

lemma bench_read_then_fail:
  "read_fails bench_driver (run bench_driver (Attached 7) [Get_spectrum (Attached 7)]) Flaky"
  "spectralData (run bench_driver (Attached 7) [Get_spectrum (Attached 7)]) = ([400, 500, 900], [0, 7, 0])"
  by code_simp+

lemma run_snoc: "run drv w0 (calls @ [c]) = do_call drv (run drv w0 calls) c"
  by (simp add: run_def)

lemma run_rectangular:
  assumes "rectangular drv"
  shows "length (fst (spectralData (run drv w0 calls))) = length (snd (spectralData (run drv w0 calls)))"
proof (induction calls rule: rev_induct)
  case Nil
  then show ?case by (simp add: run_def physical_init_def) (simp add: base_init_def)
next
  case (snoc c calls)
  show ?case
  proof (cases "\<exists>w. c = Get_spectrum w")
    case False
    then show ?thesis using snoc by (simp add: run_snoc do_call_spectralData)
  next
    case True
    then obtain w where c: "c = Get_spectrum w" by blast
    let ?st = "run drv w0 calls"
    have cache: "spectralData (do_call drv ?st c) = fst (get_spectrum drv ?st w)"
      by (simp add: c get_spectrum_cache)
    show ?thesis
    proof (cases "read_fails drv ?st w")
      case True
      then show ?thesis using snoc cache by (simp add: run_snoc get_spectrum_fails)
    next
      case False
      then obtain h w1 w2 where "spectrum drv h w1 = (Inr (fst (get_spectrum drv ?st w)), w2)"
        using get_spectrum_reads [of drv ?st w] by blast
      with assms have "length (fst (fst (get_spectrum drv ?st w))) = length (snd (fst (get_spectrum drv ?st w)))"
        unfolding rectangular_def by blast
      then show ?thesis using cache by (simp add: run_snoc)
    qed
  qed
qed

lemma get_spectrum_rectangular:
  assumes "rectangular drv"
    and "length (fst (spectralData st)) = length (snd (spectralData st))"
  shows "length (fst (fst (get_spectrum drv st w))) = length (snd (fst (get_spectrum drv st w)))"
proof (cases "read_fails drv st w")
  case True
  then show ?thesis using assms(2) by (simp add: get_spectrum_fails)
next
  case False
  then obtain h w1 w2 where "spectrum drv h w1 = (Inr (fst (get_spectrum drv st w)), w2)"
    using get_spectrum_reads [of drv st w] by blast
  with assms(1) show ?thesis unfolding rectangular_def by blast
qed

lemma bench_rectangular: "rectangular bench_driver"
  by (auto simp add: rectangular_def bench_driver_def split: bench.splits)

lemma model_twice_physical:
  assumes "reports_model drv (fst (model drv st w))"
  shows "fst (model drv (fst (snd (model drv st w))) w') = fst (model drv st w)"
proof -
  obtain st1 wa where a: "assign_spec drv st w = (st1, wa)" by (cases "assign_spec drv st w")
  then have m1: "fst (model drv st w) = specmodel st1" "fst (snd (model drv st w)) = st1"
    by (simp_all add: model_def)
  obtain st2 wb where b: "assign_spec drv st1 w' = (st2, wb)" by (cases "assign_spec drv st1 w'")
  then have m2: "fst (model drv st1 w') = specmodel st2"
    by (simp add: model_def)
  from assign_spec_specmodel [of drv st1 w'] b
  have "specmodel st2 = specmodel st1 \<or> (\<exists>h w1 w2. model_of drv h w1 = (Inr (specmodel st2), w2))"
    by simp
  with assms m1 have "specmodel st2 = specmodel st1"
    unfolding reports_model_def by auto
  with m1 m2 show ?thesis by simp
qed

lemma bench_model_stable:
  "reports_model bench_driver (fst (model bench_driver (run bench_driver Absent []) (Attached 7)))"
proof -
  have "fst (model bench_driver (run bench_driver Absent []) (Attached 7)) = ''HR4000''"
    by code_simp
  then show ?thesis
    by (auto simp add: reports_model_def bench_driver_def split: bench.splits)
qed

lemma no_read_succeeded_cache:
  "no_read_succeeded drv st calls \<Longrightarrow>
     spectralData (foldl (do_call drv) st calls) = spectralData st"
proof (induction calls arbitrary: st)
  case Nil
  then show ?case by simp
next
  case (Cons c calls)
  from Cons.prems have rest: "no_read_succeeded drv (do_call drv st c) calls" by simp
  have "spectralData (do_call drv st c) = spectralData st"
  proof (cases "\<exists>w. c = Get_spectrum w")
    case True
    then obtain w where c: "c = Get_spectrum w" by blast
    with Cons.prems have "read_fails drv st w" by simp
    then show ?thesis by (simp add: c get_spectrum_fails)
  next
    case False
    then show ?thesis by (simp add: do_call_spectralData)
  qed
  with Cons.IH [OF rest] show ?case by simp
qed

lemma bench_never_read:
  "no_read_succeeded bench_driver (fst (physical_init bench_driver Absent))
     [Model Flaky, Get_spectrum Flaky]"
  "read_fails bench_driver (run bench_driver Absent [Model Flaky, Get_spectrum Flaky]) Absent"
  by code_simp+

text \<open>
  C7, as amended. \<^verbatim>\<open>assign_spec\<close> has no exception to raise to its caller. When it fails
  before a device is opened (the discovery raises, no device is found, or the opening
  raises) it leaves the object as it was: an unbound handle stays unbound and an empty model
  name stays empty. Once a device is opened the handle is bound to it, whatever fails
  afterwards.
\<close>

theorem assign_spec_failure:
  "(opened_handle drv w = None \<longrightarrow> fst (assign_spec drv st w) = st)
   \<and> (\<forall>h. opened_handle drv w = Some h \<longrightarrow> spec (fst (assign_spec drv st w)) = Some h)"
  by (simp add: assign_spec_unopened assign_spec_opened)

theorem assign_spec_failure_witness:
  "opened_handle bench_driver Absent = None
   \<and> fst (assign_spec bench_driver (base_init :: (unit, int) spectrometer) Absent) = base_init
   \<and> opened_handle bench_driver Flaky = Some ()
   \<and> spec (fst (assign_spec bench_driver (base_init :: (unit, int) spectrometer) Flaky)) = Some ()"
  using assign_spec_failure [of bench_driver Absent base_init]
    assign_spec_failure [of bench_driver Flaky base_init] bench_absent bench_flaky
  by simp

text \<open>
  C7 as stated fails: on a device that opens and then fails the query of its model name,
  the failed \<^verbatim>\<open>assign_spec\<close> leaves the unbound object bound.
\<close>

theorem assign_spec_counterexample:
  "spec (base_init :: (unit, int) spectrometer) = None
   \<and> fst (model_of bench_driver () Flaky) = Inl (DriverError ''I/O error'')
   \<and> spec (fst (assign_spec bench_driver (base_init :: (unit, int) spectrometer) Flaky)) = Some ()"
  by (simp add: assign_spec_def bench_driver_def base_init_def)

text \<open>
  C4. \<^verbatim>\<open>get_spectrum\<close> of the physical variant has no exception to raise to its caller.
  When its read fails (no handle is bound after the implicit \<^verbatim>\<open>assign_spec\<close>, or the
  driver raises) it returns the cached spectrum and leaves the cache as it was. The cache is
  the pair of empty sequences on a fresh object, a successful read stores what the driver
  returned, and no other method writes it: the cache is the last spectrum read, or empty.
\<close>

theorem get_spectrum_degrades:
  "(read_fails drv st w \<longrightarrow>
      fst (get_spectrum drv st w) = spectralData st \<and>
      spectralData (fst (snd (get_spectrum drv st w))) = spectralData st)
   \<and> (\<not> read_fails drv st w \<longrightarrow>
      (\<exists>h w1 w2. spectrum drv h w1 = (Inr (fst (get_spectrum drv st w)), w2)) \<and>
      spectralData (fst (snd (get_spectrum drv st w))) = fst (get_spectrum drv st w))
   \<and> spectralData (run drv w0 []) = ([], [])
   \<and> (\<forall>c. (\<forall>w'. c \<noteq> Get_spectrum w') \<longrightarrow> spectralData (do_call drv st c) = spectralData st)"
proof (intro conjI impI allI)
  assume "read_fails drv st w"
  then show "fst (get_spectrum drv st w) = spectralData st"
    and "spectralData (fst (snd (get_spectrum drv st w))) = spectralData st"
    by (simp_all add: get_spectrum_fails)
next
  assume "\<not> read_fails drv st w"
  then show "\<exists>h w1 w2. spectrum drv h w1 = (Inr (fst (get_spectrum drv st w)), w2)"
    using get_spectrum_reads [of drv st w] by simp
next
  show "spectralData (fst (snd (get_spectrum drv st w))) = fst (get_spectrum drv st w)"
    by (rule get_spectrum_cache [symmetric])
next
  show "spectralData (run drv w0 []) = ([], [])"
    by (simp add: run_def physical_init_def) (simp add: base_init_def)
next
  fix c :: "'a call"
  assume "\<forall>w'. c \<noteq> Get_spectrum w'"
  then show "spectralData (do_call drv st c) = spectralData st"
    by (rule do_call_spectralData)
qed

theorem get_spectrum_degrades_witness:
  "read_fails bench_driver (run bench_driver (Attached 7) [Get_spectrum (Attached 7)]) Flaky
   \<and> fst (get_spectrum bench_driver (run bench_driver (Attached 7) [Get_spectrum (Attached 7)]) Flaky)
       = ([400, 500, 900], [0, 7, 0])
   \<and> \<not> read_fails bench_driver (run bench_driver Absent []) (Attached 7)
   \<and> spectralData (fst (snd (get_spectrum bench_driver (run bench_driver Absent []) (Attached 7))))
       = fst (get_spectrum bench_driver (run bench_driver Absent []) (Attached 7))
   \<and> spectralData (do_call bench_driver (run bench_driver (Attached 7) [Get_spectrum (Attached 7)]) (Model Flaky))
       = ([400, 500, 900], [0, 7, 0])"
proof -
  let ?st = "run bench_driver (Attached 7) [Get_spectrum (Attached 7)]"
  have ok: "\<not> read_fails bench_driver (run bench_driver Absent []) (Attached 7)"
    by code_simp
  have m: "\<forall>w'. Model Flaky \<noteq> Get_spectrum w'" by simp
  show ?thesis
    using get_spectrum_degrades [of bench_driver ?st Flaky Absent]
      get_spectrum_degrades [of bench_driver "run bench_driver Absent []" "Attached 7" Absent]
      bench_read_then_fail ok m
    by (auto simp del: do_call.simps)
qed

section \<open>The simulated spectrum\<close>

lemma length_linspace [simp]: "length (linspace a b n) = n"
  by (simp add: linspace_def)

lemma exp_1_powr: "exp 1 powr (y::real) = exp y"
  by (simp add: powr_def)

lemma linspace_nth: "i < n \<Longrightarrow> linspace a b n ! i = a + real i * ((b - a) / real (n - 1))"
  by (simp add: linspace_def)

lemma linspace_ascending:
  assumes "a < b"
  shows "sorted_wrt (<) (linspace a b n)"
proof -
  have "linspace a b n ! i < linspace a b n ! j" if "i < j" "j < n" for i j
  proof -
    from that have n: "1 < n" by simp
    then have "0 < (b - a) / real (n - 1)" using assms by simp
    moreover have "real i < real j" using that by simp
    ultimately have "real i * ((b - a) / real (n - 1)) < real j * ((b - a) / real (n - 1))"
      by (rule mult_strict_right_mono [rotated])
    with that show ?thesis by (simp add: linspace_nth)
  qed
  then show ?thesis by (simp add: sorted_wrt_iff_nth_less)
qed

lemma wavelengths_ends:
  "linspace 400 900 5000 ! 0 = 400" "linspace 400 900 5000 ! 4999 = 900"
  "linspace 400 900 5000 ! 1000 = 400 + 500000 / 4999"
  "linspace 400 900 5000 ! 1001 = 400 + 500500 / 4999"
  by (simp_all add: linspace_nth)

lemma comprehension_Inr: "comprehension (map Inr ys) = Inr ys"
  by (induction ys) simp_all

lemma int_fits_float_zero: "int_fits_float 0"
  by (simp add: int_fits_float_def)

lemma sample_spectrum_fits:
  assumes "int_fits_float (sample_data_scale st)" and "sample_data_add st = 0"
  shows "sample_spectrum st x r =
    Inr (real_of_int (sample_data_scale st) * (exp (- (((x - 500) / 5)\<^sup>2)) + r / 100))"
  using assms int_fits_float_zero
  by (simp add: sample_spectrum_def exp_1_powr Let_def)

lemma sample_spectrum_overflow:
  "\<not> int_fits_float (sample_data_scale st) \<Longrightarrow> sample_spectrum st x r = Inl OverflowError"
  by (simp add: sample_spectrum_def Let_def)

lemma get_spectrum_demo_fits:
  assumes "int_fits_float (sample_data_scale st)" and "sample_data_add st = 0"
  shows "fst (get_spectrum_demo rnd st) =
    Inr (linspace 400 900 5000,
         map (\<lambda>i. real_of_int (sample_data_scale st)
                     * (exp (- (((linspace 400 900 5000 ! i - 500) / 5)\<^sup>2)) + rnd i / 100))
           [0..<5000])"
proof -
  let ?st1 = "st\<lparr>spectralData := (linspace 400 900 5000, snd (spectralData st))\<rparr>"
  have m: "map (\<lambda>i. sample_spectrum ?st1 (linspace 400 900 5000 ! i) (rnd i)) [0..<5000] =
      map Inr (map (\<lambda>i. real_of_int (sample_data_scale st)
                     * (exp (- (((linspace 400 900 5000 ! i - 500) / 5)\<^sup>2)) + rnd i / 100))
           [0..<5000])"
    using assms by (simp add: sample_spectrum_fits)
  show ?thesis
    unfolding get_spectrum_demo_def Let_def length_linspace m comprehension_Inr by simp
qed

lemma get_spectrum_demo_overflow:
  assumes "\<not> int_fits_float (sample_data_scale st)"
  shows "fst (get_spectrum_demo rnd st) = Inl OverflowError"
proof -
  have u: "[0..<5000::nat] = 0 # [Suc 0..<5000]"
    by (rule upt_conv_Cons) simp
  show ?thesis
    using assms by (simp add: get_spectrum_demo_def Let_def u sample_spectrum_overflow)
qed

lemma get_spectrum_demo_nth:
  assumes "int_fits_float (sample_data_scale st)" and "sample_data_add st = 0" and "i < 5000"
  shows "snd (projr (fst (get_spectrum_demo rnd st))) ! i =
    real_of_int (sample_data_scale st)
      * (exp (- (((linspace 400 900 5000 ! i - 500) / 5)\<^sup>2)) + rnd i / 100)"
  using assms(3) by (simp add: get_spectrum_demo_fits [OF assms(1,2)])

lemma intensity_nonneg:
  assumes "0 \<le> k" and "0 \<le> r"
  shows "0 \<le> real_of_int k * (exp (- (((x - 500) / 5)\<^sup>2)) + r / 100)"
proof -
  have "0 \<le> exp (- (((x - 500) / 5)\<^sup>2)) + r / 100"
    using assms(2) by (simp add: add_nonneg_nonneg)
  then show ?thesis using assms(1) by simp
qed

lemma gauss_far:
  fixes x :: real
  assumes "51 / 100 \<le> \<bar>x - 500\<bar>"
  shows "exp (- (((x - 500) / 5)\<^sup>2)) + 1 / 100 \<le> exp (- (((400 + 500000 / 4999 - 500) / 5)\<^sup>2))"
proof -
  define t where "t = ((x - 500) / 5)\<^sup>2"
  define s :: real where "s = ((400 + 500000 / 4999 - 500) / 5)\<^sup>2"
  have "(51 / 500)\<^sup>2 \<le> (\<bar>x - 500\<bar> / 5)\<^sup>2"
    using assms by (intro power_mono) simp_all
  then have t: "(51 / 500)\<^sup>2 \<le> t"
    by (simp add: t_def power_divide)
  have tpos: "0 < 1 + t" using t by (simp add: add_pos_nonneg t_def)
  have "1 + t \<le> exp t" by simp
  then have "inverse (exp t) \<le> inverse (1 + t)"
    using tpos by (simp add: le_imp_inverse_le)
  then have e1: "exp (- t) \<le> inverse (1 + t)" by (simp add: exp_minus)
  have "1 + (51 / 500)\<^sup>2 \<le> 1 + t" using t by simp
  then have "inverse (1 + t) \<le> inverse (1 + (51 / 500)\<^sup>2 :: real)"
    by (intro le_imp_inverse_le) (simp_all add: add_pos_nonneg)
  with e1 have e2: "exp (- t) \<le> inverse (1 + (51 / 500)\<^sup>2 :: real)" by simp
  have "1 + (- s) \<le> exp (- s)" by (rule exp_ge_add_one_self)
  moreover have "inverse (1 + (51 / 500)\<^sup>2 :: real) + 1 / 100 \<le> 1 + (- s)"
    by (simp add: s_def power2_eq_square)
  ultimately have "exp (- t) + 1 / 100 \<le> exp (- s)" using e2 by linarith
  then show ?thesis by (simp add: t_def s_def)
qed

lemma intensity_far:
  assumes "0 < k" and "51 / 100 \<le> \<bar>x - 500\<bar>" and "r < 1" and "0 \<le> r'"
  shows "real_of_int k * (exp (- (((x - 500) / 5)\<^sup>2)) + r / 100)
       < real_of_int k * (exp (- (((400 + 500000 / 4999 - 500) / 5)\<^sup>2)) + r' / 100)"
proof -
  have "exp (- (((x - 500) / 5)\<^sup>2)) + r / 100 < exp (- (((x - 500) / 5)\<^sup>2)) + 1 / 100"
    using assms(3) by simp
  also have "\<dots> \<le> exp (- (((400 + 500000 / 4999 - 500) / 5)\<^sup>2))"
    by (rule gauss_far [OF assms(2)])
  also have "\<dots> \<le> exp (- (((400 + 500000 / 4999 - 500) / 5)\<^sup>2)) + r' / 100"
    using assms(4) by simp
  finally show ?thesis
    using assms(1) by (simp only: mult_less_cancel_left_pos of_int_0_less_iff)
qed

lemma send_loop_demo_add:
  "sample_data_add (snd (send_loop_demo st commands f t)) = sample_data_add st"
proof (induction commands arbitrary: st f t)
  case Nil
  then show ?case by simp
next
  case (Cons c cs)
  obtain k v where c: "c = (k, v)" by (cases c)
  show ?case
    by (cases "controlFunctions_demo k")
       (simp_all add: c call_setter_demo_def Cons.IH integration_time_demo_def)
qed

lemma do_call_demo_add: "sample_data_add (do_call_demo st c) = sample_data_add st"
  by (cases c)
     (simp_all add: assign_spec_demo_def get_spectrum_demo_def Let_def
        send_control_values_demo_def send_loop_demo_add split: sum.splits)

lemma run_demo_add: "sample_data_add (run_demo dcalls) = 0"
proof (induction dcalls rule: rev_induct)
  case Nil
  then show ?case by (simp add: run_demo_def demo_init_def assign_spec_demo_def Let_def)
next
  case (snoc c dcalls)
  then show ?case by (simp add: run_demo_def do_call_demo_add)
qed

lemma run_demo_scale:
  "sample_data_scale (run_demo [Demo_send_control_values [(''integration-time-input'', v)]]) = v"
  by (simp add: run_demo_def send_one_demo)

lemma demo_scales:
  "int_fits_float 1000" "int_fits_float (- 5)" "\<not> int_fits_float (10 ^ 400)"
  by (simp_all add: int_fits_float_def)

lemma do_call_demo_specmodel:
  "specmodel st = ''USB2000+'' \<Longrightarrow> specmodel (do_call_demo st c) = ''USB2000+''"
proof (cases c)
  case Demo_assign_spec
  then show ?thesis by (simp add: assign_spec_demo_def)
next
  case (Demo_get_spectrum rnd)
  assume "specmodel st = ''USB2000+''"
  then show ?thesis
    by (simp add: Demo_get_spectrum get_spectrum_demo_def Let_def split: sum.splits)
next
  case (Demo_send_control_values commands)
  assume s: "specmodel st = ''USB2000+''"
  have "specmodel (snd (send_loop_demo st commands f t)) = specmodel st" for f t
  proof (induction commands arbitrary: st f t)
    case Nil
    then show ?case by simp
  next
    case (Cons c cs)
    obtain k v where c: "c = (k, v)" by (cases c)
    show ?case
      by (cases "controlFunctions_demo k")
         (simp_all add: c call_setter_demo_def Cons.IH integration_time_demo_def)
  qed
  with s show ?thesis by (simp add: Demo_send_control_values send_control_values_demo_def)
qed

lemma run_demo_specmodel: "specmodel (run_demo dcalls) = ''USB2000+''"
proof (induction dcalls rule: rev_induct)
  case Nil
  then show ?case by (simp add: run_demo_def demo_init_def assign_spec_demo_def Let_def)
next
  case (snoc c dcalls)
  then show ?case using do_call_demo_specmodel [of "run_demo dcalls" c]
    by (simp add: run_demo_def)
qed

text \<open>
  C3, as amended. On the physical variant, as long as the driver's spectra have two rows of
  one length, \<^verbatim>\<open>get_spectrum\<close> returns two sequences of equal length in every reachable
  state, and two empty sequences as long as no read has succeeded. On the simulated variant,
  in every reachable state, it returns 5000 samples in each sequence when the scale is
  within the range of a float, and raises \<^verbatim>\<open>OverflowError\<close> when it is not.
\<close>

theorem get_spectrum_equal_length:
  assumes "rectangular drv"
  shows "length (fst (fst (get_spectrum drv (run drv w0 calls) w)))
           = length (snd (fst (get_spectrum drv (run drv w0 calls) w)))
       \<and> (no_read_succeeded drv (fst (physical_init drv w0)) calls
            \<and> read_fails drv (run drv w0 calls) w \<longrightarrow>
          fst (get_spectrum drv (run drv w0 calls) w) = ([], []))
       \<and> (int_fits_float (sample_data_scale (run_demo dcalls)) \<longrightarrow>
            \<not> isl (fst (get_spectrum_demo rnd (run_demo dcalls)))
            \<and> length (fst (projr (fst (get_spectrum_demo rnd (run_demo dcalls))))) = 5000
            \<and> length (snd (projr (fst (get_spectrum_demo rnd (run_demo dcalls))))) = 5000)
       \<and> (\<not> int_fits_float (sample_data_scale (run_demo dcalls)) \<longrightarrow>
            fst (get_spectrum_demo rnd (run_demo dcalls)) = Inl OverflowError)"
proof (intro conjI impI)
  show "length (fst (fst (get_spectrum drv (run drv w0 calls) w)))
      = length (snd (fst (get_spectrum drv (run drv w0 calls) w)))"
    by (rule get_spectrum_rectangular [OF assms run_rectangular [OF assms]])
next
  assume a: "no_read_succeeded drv (fst (physical_init drv w0)) calls
      \<and> read_fails drv (run drv w0 calls) w"
  then have "spectralData (run drv w0 calls) = spectralData (fst (physical_init drv w0))"
    by (simp add: run_def no_read_succeeded_cache)
  also have "\<dots> = ([], [])"
    by (simp add: physical_init_def) (simp add: base_init_def)
  finally show "fst (get_spectrum drv (run drv w0 calls) w) = ([], [])"
    using a by (simp add: get_spectrum_fails)
next
  assume f: "int_fits_float (sample_data_scale (run_demo dcalls))"
  note r = get_spectrum_demo_fits [OF f run_demo_add, of rnd]
  show "\<not> isl (fst (get_spectrum_demo rnd (run_demo dcalls)))"
    and "length (fst (projr (fst (get_spectrum_demo rnd (run_demo dcalls))))) = 5000"
    and "length (snd (projr (fst (get_spectrum_demo rnd (run_demo dcalls))))) = 5000"
    by (simp_all add: r)
next
  assume "\<not> int_fits_float (sample_data_scale (run_demo dcalls))"
  then show "fst (get_spectrum_demo rnd (run_demo dcalls)) = Inl OverflowError"
    by (rule get_spectrum_demo_overflow)
qed

theorem get_spectrum_equal_length_witness:
  "rectangular bench_driver
   \<and> length (fst (fst (get_spectrum bench_driver
         (run bench_driver Absent [Model Flaky, Get_spectrum (Attached 7)]) Flaky)))
       = length (snd (fst (get_spectrum bench_driver
         (run bench_driver Absent [Model Flaky, Get_spectrum (Attached 7)]) Flaky)))
   \<and> no_read_succeeded bench_driver (fst (physical_init bench_driver Absent))
         [Model Flaky, Get_spectrum Flaky]
   \<and> read_fails bench_driver (run bench_driver Absent [Model Flaky, Get_spectrum Flaky]) Absent
   \<and> fst (get_spectrum bench_driver (run bench_driver Absent [Model Flaky, Get_spectrum Flaky]) Absent)
       = ([], [])
   \<and> int_fits_float (sample_data_scale
         (run_demo [Demo_send_control_values [(''integration-time-input'', 1000)]]))
   \<and> \<not> isl (fst (get_spectrum_demo (\<lambda>i. 0)
         (run_demo [Demo_send_control_values [(''integration-time-input'', 1000)]])))
   \<and> length (fst (projr (fst (get_spectrum_demo (\<lambda>i. 0)
         (run_demo [Demo_send_control_values [(''integration-time-input'', 1000)]]))))) = 5000
   \<and> length (snd (projr (fst (get_spectrum_demo (\<lambda>i. 0)
         (run_demo [Demo_send_control_values [(''integration-time-input'', 1000)]]))))) = 5000
   \<and> \<not> int_fits_float (sample_data_scale
         (run_demo [Demo_send_control_values [(''integration-time-input'', 10 ^ 400)]]))
   \<and> fst (get_spectrum_demo (\<lambda>i. 0)
         (run_demo [Demo_send_control_values [(''integration-time-input'', 10 ^ 400)]]))
       = Inl OverflowError"
proof -
  have s: "int_fits_float (sample_data_scale
         (run_demo [Demo_send_control_values [(''integration-time-input'', 1000)]]))"
    by (simp add: run_demo_scale demo_scales)
  have b: "\<not> int_fits_float (sample_data_scale
         (run_demo [Demo_send_control_values [(''integration-time-input'', 10 ^ 400)]]))"
    by (simp only: run_demo_scale demo_scales not_False_eq_True)
  show ?thesis
    using bench_rectangular bench_never_read s b
      get_spectrum_equal_length [OF bench_rectangular,
        of Absent "[Model Flaky, Get_spectrum (Attached 7)]" Flaky
          "[Demo_send_control_values [(''integration-time-input'', 1000)]]" "\<lambda>i. 0"]
      get_spectrum_equal_length [OF bench_rectangular,
        of Absent "[Model Flaky, Get_spectrum Flaky]" Absent
          "[Demo_send_control_values [(''integration-time-input'', 10 ^ 400)]]" "\<lambda>i. 0"]
    by blast
qed

text \<open>
  C3 as stated fails on its lower bound: with no device attached, the physical variant
  returns two empty sequences.
\<close>

theorem get_spectrum_empty_counterexample:
  "fst (get_spectrum bench_driver (run bench_driver Absent []) Absent) = ([], [])"
  by code_simp

text \<open>
  C8, as amended. The simulated variant reports the model \<^verbatim>\<open>USB2000+\<close> in every
  reachable state. The physical variant runs \<^verbatim>\<open>assign_spec\<close> in every call of
  \<^verbatim>\<open>model\<close>; the second of two calls returns what the first returned whenever the
  driver, where it reports a model name at all, reports that one.
\<close>

theorem model_twice:
  "(reports_model drv (fst (model drv st w)) \<longrightarrow>
      fst (model drv (fst (snd (model drv st w))) w') = fst (model drv st w))
   \<and> model_demo (run_demo dcalls) = ''USB2000+''"
  by (simp add: model_twice_physical model_demo_def run_demo_specmodel)

theorem model_twice_witness:
  "reports_model bench_driver (fst (model bench_driver (run bench_driver Absent []) (Attached 7)))
   \<and> fst (model bench_driver (fst (snd (model bench_driver (run bench_driver Absent []) (Attached 7)))) Flaky)
       = fst (model bench_driver (run bench_driver Absent []) (Attached 7))
   \<and> model_demo (run_demo [Demo_get_spectrum (\<lambda>i. 0)]) = ''USB2000+''"
  using bench_model_stable
    model_twice [of bench_driver "run bench_driver Absent []" "Attached 7" Flaky "[Demo_get_spectrum (\<lambda>i. 0)]"]
  by blast

text \<open>
  C8 as stated fails: a first call with no device attached returns the empty name, and a
  second call after the device has been attached returns its model, with no call between.
\<close>

theorem model_twice_counterexample:
  "fst (model bench_driver (run bench_driver Absent []) Absent) = ''''
   \<and> fst (model bench_driver (fst (snd (model bench_driver (run bench_driver Absent []) Absent))) (Attached 7))
       = ''HR4000''"
  by code_simp

text \<open>
  C5, as amended. With every random number in \<open>[0, 1)\<close>, in every reachable state of
  the simulated variant whose scale, the integration time last submitted, is within the
  range of a float: \<^verbatim>\<open>get_spectrum\<close> returns, and the wavelengths are the fixed sequence
  of 5000 samples that ascends from 400 to 900. When the scale is not negative, no intensity
  is negative. When it is positive, every sample whose wavelength is 0.51 nm or more away
  from 500 nm lies below the sample nearest 500 nm (index 1000), so the maximum is attained
  within 0.51 nm of 500 nm.
\<close>

theorem get_spectrum_demo_shape:
  assumes "\<forall>i. 0 \<le> rnd i \<and> rnd i < 1"
    and "int_fits_float (sample_data_scale (run_demo dcalls))"
  shows "\<not> isl (fst (get_spectrum_demo rnd (run_demo dcalls)))
       \<and> fst (projr (fst (get_spectrum_demo rnd (run_demo dcalls)))) = linspace 400 900 5000
       \<and> length (linspace 400 900 5000) = 5000
       \<and> linspace 400 900 5000 ! 0 = 400 \<and> linspace 400 900 5000 ! 4999 = 900
       \<and> sorted_wrt (<) (linspace 400 900 5000)
       \<and> (0 \<le> sample_data_scale (run_demo dcalls) \<longrightarrow>
            (\<forall>i<5000. 0 \<le> snd (projr (fst (get_spectrum_demo rnd (run_demo dcalls)))) ! i))
       \<and> (0 < sample_data_scale (run_demo dcalls) \<longrightarrow>
            (\<forall>i<5000. 51 / 100 \<le> \<bar>linspace 400 900 5000 ! i - 500\<bar> \<longrightarrow>
               snd (projr (fst (get_spectrum_demo rnd (run_demo dcalls)))) ! i
                 < snd (projr (fst (get_spectrum_demo rnd (run_demo dcalls)))) ! 1000))"
proof (intro conjI impI allI)
  note r = get_spectrum_demo_fits [OF assms(2) run_demo_add, of rnd]
  show "\<not> isl (fst (get_spectrum_demo rnd (run_demo dcalls)))"
    and "fst (projr (fst (get_spectrum_demo rnd (run_demo dcalls)))) = linspace 400 900 5000"
    by (simp_all add: r)
  show "length (linspace 400 900 5000) = 5000" by simp
  show "linspace 400 900 5000 ! 0 = 400" "linspace 400 900 5000 ! 4999 = 900"
    by (rule wavelengths_ends)+
  show "sorted_wrt (<) (linspace 400 900 5000)"
    by (rule linspace_ascending) simp
next
  fix i :: nat
  assume "0 \<le> sample_data_scale (run_demo dcalls)" "i < 5000"
  then show "0 \<le> snd (projr (fst (get_spectrum_demo rnd (run_demo dcalls)))) ! i"
    using assms(1)
    by (simp add: get_spectrum_demo_nth [OF assms(2) run_demo_add] intensity_nonneg)
next
  fix i :: nat
  assume "0 < sample_data_scale (run_demo dcalls)" "i < 5000"
    "51 / 100 \<le> \<bar>linspace 400 900 5000 ! i - 500\<bar>"
  then show "snd (projr (fst (get_spectrum_demo rnd (run_demo dcalls)))) ! i
      < snd (projr (fst (get_spectrum_demo rnd (run_demo dcalls)))) ! 1000"
    using assms(1)
      intensity_far [of "sample_data_scale (run_demo dcalls)" "linspace 400 900 5000 ! i" "rnd i" "rnd 1000"]
    by (simp add: get_spectrum_demo_nth [OF assms(2) run_demo_add] wavelengths_ends)
qed

theorem get_spectrum_demo_shape_witness:
  "(\<forall>i::nat. (0::real) \<le> 0 \<and> (0::real) < 1)
   \<and> int_fits_float (sample_data_scale
        (run_demo [Demo_send_control_values [(''integration-time-input'', 1000)]]))
   \<and> 0 < sample_data_scale (run_demo [Demo_send_control_values [(''integration-time-input'', 1000)]])
   \<and> 51 / 100 \<le> \<bar>linspace 400 900 5000 ! 0 - 500\<bar>
   \<and> \<not> isl (fst (get_spectrum_demo (\<lambda>i. 0)
        (run_demo [Demo_send_control_values [(''integration-time-input'', 1000)]])))
   \<and> fst (projr (fst (get_spectrum_demo (\<lambda>i. 0)
        (run_demo [Demo_send_control_values [(''integration-time-input'', 1000)]])))) = linspace 400 900 5000
   \<and> 0 \<le> snd (projr (fst (get_spectrum_demo (\<lambda>i. 0)
        (run_demo [Demo_send_control_values [(''integration-time-input'', 1000)]])))) ! 0
   \<and> snd (projr (fst (get_spectrum_demo (\<lambda>i. 0)
        (run_demo [Demo_send_control_values [(''integration-time-input'', 1000)]])))) ! 0
      < snd (projr (fst (get_spectrum_demo (\<lambda>i. 0)
        (run_demo [Demo_send_control_values [(''integration-time-input'', 1000)]])))) ! 1000"
proof -
  have n: "\<forall>i::nat. (0::real) \<le> (\<lambda>i. 0) i \<and> (\<lambda>i. 0 :: real) i < 1" by simp
  have g: "int_fits_float (sample_data_scale
        (run_demo [Demo_send_control_values [(''integration-time-input'', 1000)]]))"
    by (simp add: run_demo_scale demo_scales)
  have s: "0 < sample_data_scale (run_demo [Demo_send_control_values [(''integration-time-input'', 1000)]])"
    by (simp add: run_demo_scale)
  have f: "51 / 100 \<le> \<bar>linspace 400 900 5000 ! 0 - 500\<bar>"
    by (simp add: wavelengths_ends)
  have z: "(0::nat) < 5000" by simp
  note t = get_spectrum_demo_shape [OF n g]
  from t s z have a: "0 \<le> snd (projr (fst (get_spectrum_demo (\<lambda>i. 0)
        (run_demo [Demo_send_control_values [(''integration-time-input'', 1000)]])))) ! 0"
    by (meson order_less_imp_le)
  from t s z f have b: "snd (projr (fst (get_spectrum_demo (\<lambda>i. 0)
        (run_demo [Demo_send_control_values [(''integration-time-input'', 1000)]])))) ! 0
      < snd (projr (fst (get_spectrum_demo (\<lambda>i. 0)
        (run_demo [Demo_send_control_values [(''integration-time-input'', 1000)]])))) ! 1000"
    by meson
  from t have c: "\<not> isl (fst (get_spectrum_demo (\<lambda>i. 0)
        (run_demo [Demo_send_control_values [(''integration-time-input'', 1000)]])))"
    "fst (projr (fst (get_spectrum_demo (\<lambda>i. 0)
        (run_demo [Demo_send_control_values [(''integration-time-input'', 1000)]])))) = linspace 400 900 5000"
    by blast+
  show ?thesis using g s f a b c by simp
qed

text \<open>
  C5 as stated fails twice. After the integration time \<open>-5\<close> has been submitted the call
  returns, and the intensity nearest 500 nm is negative. With the scale 1000 and noise 0.99
  on the next sample only, the call returns and that sample exceeds the one nearest 500 nm.
\<close>

theorem get_spectrum_demo_counterexample:
  "\<not> isl (fst (get_spectrum_demo (\<lambda>i. 0)
        (run_demo [Demo_send_control_values [(''integration-time-input'', - 5)]])))
   \<and> snd (projr (fst (get_spectrum_demo (\<lambda>i. 0)
        (run_demo [Demo_send_control_values [(''integration-time-input'', - 5)]])))) ! 1000 < 0
   \<and> \<not> isl (fst (get_spectrum_demo (\<lambda>i. if i = 1001 then 99 / 100 else 0)
        (run_demo [Demo_send_control_values [(''integration-time-input'', 1000)]])))
   \<and> snd (projr (fst (get_spectrum_demo (\<lambda>i. if i = 1001 then 99 / 100 else 0)
        (run_demo [Demo_send_control_values [(''integration-time-input'', 1000)]])))) ! 1000
     < snd (projr (fst (get_spectrum_demo (\<lambda>i. if i = 1001 then 99 / 100 else 0)
        (run_demo [Demo_send_control_values [(''integration-time-input'', 1000)]])))) ! 1001"
proof (intro conjI)
  have m: "int_fits_float (sample_data_scale
      (run_demo [Demo_send_control_values [(''integration-time-input'', - 5)]]))"
    by (simp add: run_demo_scale demo_scales)
  have p: "int_fits_float (sample_data_scale
      (run_demo [Demo_send_control_values [(''integration-time-input'', 1000)]]))"
    by (simp add: run_demo_scale demo_scales)
  show "\<not> isl (fst (get_spectrum_demo (\<lambda>i. 0)
        (run_demo [Demo_send_control_values [(''integration-time-input'', - 5)]])))"
    by (simp add: get_spectrum_demo_fits [OF m run_demo_add])
  show "\<not> isl (fst (get_spectrum_demo (\<lambda>i. if i = 1001 then 99 / 100 else 0)
        (run_demo [Demo_send_control_values [(''integration-time-input'', 1000)]])))"
    by (simp add: get_spectrum_demo_fits [OF p run_demo_add])
  have "0 < exp (- (((400 + 500000 / 4999 - 500) / 5 :: real)\<^sup>2))" by (rule exp_gt_zero)
  then show "snd (projr (fst (get_spectrum_demo (\<lambda>i. 0)
        (run_demo [Demo_send_control_values [(''integration-time-input'', - 5)]])))) ! 1000 < 0"
    by (simp add: get_spectrum_demo_nth [OF m run_demo_add] run_demo_scale wavelengths_ends)
  define s :: real where "s = ((400 + 500000 / 4999 - 500) / 5)\<^sup>2"
  define t :: real where "t = ((400 + 500500 / 4999 - 500) / 5)\<^sup>2"
  have "exp (- s) \<le> exp 0" unfolding exp_le_cancel_iff by (simp add: s_def)
  then have e1: "exp (- s) \<le> 1" by simp
  have "1 + (- t) \<le> exp (- t)" by (rule exp_ge_add_one_self)
  moreover have "1 < 1 + (- t) + 99 / 10000" by (simp add: t_def power2_eq_square)
  ultimately have "exp (- s) < exp (- t) + 99 / 10000" using e1 by linarith
  then have "1000 * exp (- s) < 1000 * (exp (- t) + 99 / 10000)" by simp
  then show "snd (projr (fst (get_spectrum_demo (\<lambda>i. if i = 1001 then 99 / 100 else 0)
        (run_demo [Demo_send_control_values [(''integration-time-input'', 1000)]])))) ! 1000
     < snd (projr (fst (get_spectrum_demo (\<lambda>i. if i = 1001 then 99 / 100 else 0)
        (run_demo [Demo_send_control_values [(''integration-time-input'', 1000)]])))) ! 1001"
    by (simp add: get_spectrum_demo_nth [OF p run_demo_add] run_demo_scale wavelengths_ends s_def t_def)
qed

section \<open>Submitting an integration time\<close>

text \<open>
  C2, as amended. The operator's submission validates nothing. With the power off it
  dispatches nothing; with the power on it passes every value \<open>v\<close>, inside or outside
  the bounds of the device, to \<^verbatim>\<open>send_control_values\<close>, and on a bound device the
  driver's setter is called with \<open>v\<close>: the value is recorded under \<open>failed\<close> when
  the driver raises, under \<open>succeeded\<close> otherwise.
\<close>

theorem update_spec_params_forwards:
  "update_spec_params drv st w v False = (None, w)
   \<and> update_spec_params drv st w v True =
       (Some (fst (send_control_values drv st [(''integration-time-input'', v)] w)),
        snd (send_control_values drv st [(''integration-time-input'', v)] w))
   \<and> (\<forall>h. spec st = Some h \<longrightarrow>
        update_spec_params drv st w v True =
          (case integration_time_micros drv h v w of
             (Inl e, w') \<Rightarrow> (Some ([(''integration-time-input'', strip CHR ''b'' (str_exn e))], []), w')
           | (Inr u, w') \<Rightarrow> (Some ([], [(''integration-time-input'', str_int v)]), w')))"
  by (auto simp add: update_spec_params_def Let_def send_one_physical split: prod.splits sum.splits)

theorem update_spec_params_forwards_witness:
  "spec (run bench_driver (Attached 10) []) = Some ()
   \<and> update_spec_params bench_driver (run bench_driver (Attached 10) []) (Attached 10) 2000 True =
       (Some ([], [(''integration-time-input'', str_int 2000)]), Attached 2000)"
proof -
  have b: "integration_time_micros bench_driver () 2000 (Attached 10) = (Inr (), Attached 2000)"
    by (simp add: bench_driver_def)
  show ?thesis
    using update_spec_params_forwards
        [of bench_driver "run bench_driver (Attached 10) []" "Attached 10" 2000,
          THEN conjunct2, THEN conjunct2, THEN spec, THEN mp, OF bench_attached(1)]
      bench_attached(1) b
    by simp
qed

text \<open>
  C2 as stated fails: with bounds from 10 to 65535000 the submitted value \<open>-5\<close> reaches
  \<^verbatim>\<open>send_control_values\<close>, and the error recorded is the one the driver raises.
\<close>

theorem update_spec_params_counterexample:
  "int_time_min (run bench_driver (Attached 10) []) = 10
   \<and> update_spec_params bench_driver (run bench_driver (Attached 10) []) (Attached 10) (- 5) True =
       (Some (fst (send_control_values bench_driver (run bench_driver (Attached 10) [])
                [(''integration-time-input'', - 5)] (Attached 10))), Attached 10)
   \<and> fst (send_control_values bench_driver (run bench_driver (Attached 10) [])
                [(''integration-time-input'', - 5)] (Attached 10))
       = ([(''integration-time-input'', ''Integration time out of range'')], [])"
  by code_simp

text \<open>
  C6, as amended. On the simulated variant a batch of one integration time \<open>v\<close> within
  the bounds returns \<open>v\<close> as a string under \<open>succeeded\<close> and nothing under
  \<open>failed\<close>, and 1000 yields the string \<^verbatim>\<open>1000\<close>. On the physical variant it does
  when a device is bound and the driver's setter accepts \<open>v\<close>.
\<close>

theorem integration_time_in_bounds:
  "(int_time_min dst \<le> v \<and> v \<le> int_time_max dst \<longrightarrow>
      send_control_values_demo dst [(''integration-time-input'', v)] =
        (([], [(''integration-time-input'', str_int v)]), dst\<lparr>sample_data_scale := v\<rparr>))
   \<and> fst (send_control_values_demo demo_init [(''integration-time-input'', 1000)]) =
        ([], [(''integration-time-input'', ''1000'')])
   \<and> (\<forall>h w'. int_time_min st \<le> v \<and> v \<le> int_time_max st \<and> spec st = Some h \<and>
        integration_time_micros drv h v w = (Inr (), w') \<longrightarrow>
        send_control_values drv st [(''integration-time-input'', v)] w =
          (([], [(''integration-time-input'', str_int v)]), w'))"
proof -
  have "str_int 1000 = ''1000''" by code_simp
  then show ?thesis
    by (simp add: send_one_demo send_one_physical)
qed

theorem integration_time_in_bounds_witness:
  "int_time_min demo_init \<le> 1 \<and> 1 \<le> int_time_max demo_init
   \<and> send_control_values_demo demo_init [(''integration-time-input'', 1)] =
        (([], [(''integration-time-input'', str_int 1)]), demo_init\<lparr>sample_data_scale := 1\<rparr>)
   \<and> int_time_min (run bench_driver (Attached 10) []) \<le> 2000
   \<and> 2000 \<le> int_time_max (run bench_driver (Attached 10) [])
   \<and> spec (run bench_driver (Attached 10) []) = Some ()
   \<and> integration_time_micros bench_driver () 2000 (Attached 10) = (Inr (), Attached 2000)
   \<and> send_control_values bench_driver (run bench_driver (Attached 10) [])
        [(''integration-time-input'', 2000)] (Attached 10) =
          (([], [(''integration-time-input'', str_int 2000)]), Attached 2000)"
proof -
  have d: "int_time_min demo_init \<le> 1 \<and> 1 \<le> int_time_max demo_init"
    by (simp add: demo_init_def assign_spec_demo_def Let_def)
  have b: "integration_time_micros bench_driver () 2000 (Attached 10) = (Inr (), Attached 2000)"
    by (simp add: bench_driver_def)
  show ?thesis
    using integration_time_in_bounds [of demo_init 1 "run bench_driver (Attached 10) []" bench_driver "Attached 10"]
      integration_time_in_bounds [of demo_init 2000 "run bench_driver (Attached 10) []" bench_driver "Attached 10"]
      d b bench_attached
    by simp
qed

text \<open>
  C6 as stated fails on the physical variant with no device bound: the bounds are the
  defaults 0 and 1, and the value 0 is recorded under \<open>failed\<close>.
\<close>

theorem integration_time_in_bounds_counterexample:
  "int_time_min (run bench_driver Absent []) \<le> 0 \<and> 0 \<le> int_time_max (run bench_driver Absent [])
   \<and> send_control_values bench_driver (run bench_driver Absent []) [(''integration-time-input'', 0)] Absent
       = (([(''integration-time-input'', none_has_no_attribute ''integration_time_micros'')], []), Absent)"
  by code_simp

end
